theory Spec2Isabelle
  imports Complex_Main
begin

section \<open>Values and tables\<close>

text \<open>
  A Python float that reaches a comparison is modelled as a \<^typ>\<open>real\<close>; \<open>None\<close>
  stands for every value that \<^verbatim>\<open>pd.isna\<close> accepts (\<^verbatim>\<open>None\<close>, \<^verbatim>\<open>NaN\<close>, \<^verbatim>\<open>NaT\<close>, \<^verbatim>\<open>pd.NA\<close>).
  A timestamp is the number of nanoseconds since the epoch, as pandas stores it.

  The risk texts of the analyzer are a closed set of five Swedish words, written here
  without their diacritics: \<open>Okand\<close> (unknown), \<open>Ingen\<close> (none), \<open>Lag\<close> (low),
  \<open>Medel\<close> (medium) and \<open>Hog\<close> (high).
\<close>

datatype risk_level = Okand | Ingen | Lag | Medel | Hog

text \<open>
  The details dictionary is represented by the return statement that built it; the
  cloud-threshold return carries its \<^verbatim>\<open>cloud_factor\<close> entry.
\<close>

datatype details =
    Saknade_data
  | Dagtid_plusgrader
  | Temperatur_under_noll
  | Vindstilla real
  | Hog_fuktighet
  | Ingen_risk

record row =
  valid_time :: "int option"
  temperature_2m :: "real option"
  relative_humidity_2m :: "real option"
  precipitation :: "real option"
  wind_speed_10m :: "real option"
  precipitation_probability :: "real option"
  cloud_cover :: "real option"
  dataset :: "string option"
  forecast_issue_time :: "int option"
  horizon_hours :: "real option"
  run_id :: "string option"
  frost_risk_level :: "risk_level option"
  frost_risk_numeric :: "int option"
  frost_warning :: "bool option"
  frost_details :: "details option"
  created_at :: "int option"

text \<open>
  A DataFrame is its column index and its rows. A field of a row whose column is not
  in the index carries no information and is kept \<open>None\<close>.
\<close>

record dataframe =
  columns :: "string list"
  rows :: "row list"

definition empty_frame :: dataframe where
  "empty_frame = \<lparr>columns = [], rows = []\<rparr>"

definition is_empty :: "dataframe \<Rightarrow> bool" where
  \<comment> \<open>\<^verbatim>\<open>df.empty\<close>: some axis has length 0\<close>
  "is_empty df \<longleftrightarrow> columns df = [] \<or> rows df = []"

definition add_column :: "string \<Rightarrow> string list \<Rightarrow> string list" where
  \<comment> \<open>\<^verbatim>\<open>df[c] = ...\<close> appends the label unless the column exists already\<close>
  "add_column c cs = (if c \<in> set cs then cs else cs @ [c])"

definition hour :: "int \<Rightarrow> int" where
  "hour t = (t div 3600000000000) mod 24"

datatype log_level = INFO | WARNING | ERROR

datatype log_message =
    Tom_DataFrame
  | Saknar_kolumner "string list"
  | Frostanalys nat nat

type_synonym log_record = "log_level \<times> log_message"


section \<open>Frost analysis (advanced\_frost\_analyzer.py)\<close>

definition calculate_cloud_impact_factor :: "real option \<Rightarrow> real" where
  "calculate_cloud_impact_factor cloud =
     (case cloud of
        None \<Rightarrow> 1.0
      | Some c \<Rightarrow>
          if c \<le> 20 then 1.5
          else if c \<le> 50 then 1.2
          else if c \<le> 80 then 1.0
          else 0.7)"

text \<open>
  The threshold chain of \<^verbatim>\<open>calculate_advanced_frost_risk\<close> (the assignments of
  \<^verbatim>\<open>temp_limit\<close>, \<^verbatim>\<open>risk_level\<close>, \<^verbatim>\<open>risk_numeric\<close>), separated out so that statements can
  name the three values.
\<close>

definition dynamic_threshold :: "real \<Rightarrow> real \<times> risk_level \<times> int" where
  "dynamic_threshold cloud_factor =
     (if cloud_factor \<ge> 1.4 then (3.0, Lag, 1)
      else if cloud_factor \<ge> 1.1 then (2.0, Medel, 2)
      else (1.0, Medel, 2))"

definition calculate_advanced_frost_risk ::
  "real option \<Rightarrow> real option \<Rightarrow> real option \<Rightarrow> real option \<Rightarrow> int option
     \<Rightarrow> risk_level \<times> int \<times> details" where
  "calculate_advanced_frost_risk temperature wind_speed cloud humidity hour_of_day =
     (case (temperature, wind_speed) of
        (None, _) \<Rightarrow> (Okand, 0, Saknade_data)
      | (_, None) \<Rightarrow> (Okand, 0, Saknade_data)
      | (Some t, Some w) \<Rightarrow>
          if (case hour_of_day of None \<Rightarrow> False | Some h \<Rightarrow> 8 \<le> h \<and> h \<le> 17) \<and> t > 0
          then (Ingen, 0, Dagtid_plusgrader)
          else if t \<le> 0 then (Hog, 3, Temperatur_under_noll)
          else
            let cloud_factor = calculate_cloud_impact_factor cloud;
                (temp_limit, risk_level, risk_numeric) = dynamic_threshold cloud_factor
            in
              if t \<le> temp_limit \<and> w < 4 then (risk_level, risk_numeric, Vindstilla cloud_factor)
              else if (case humidity of None \<Rightarrow> False | Some h \<Rightarrow> t \<le> 2 \<and> w < 3 \<and> h > 85)
              then (Medel, 2, Hog_fuktighet)
              else (Ingen, 0, Ingen_risk))"

definition hour_of_day_of :: "dataframe \<Rightarrow> row \<Rightarrow> int option" where
  \<comment> \<open>the hour extraction in the loop of \<^verbatim>\<open>analyze_dataframe_advanced\<close>\<close>
  "hour_of_day_of df r =
     (if ''valid_time'' \<in> set (columns df) then map_option hour (valid_time r) else None)"

definition analyze_row :: "dataframe \<Rightarrow> bool \<Rightarrow> row \<Rightarrow> row" where
  \<comment> \<open>one iteration of the loop, with the four result columns written into the row\<close>
  "analyze_row df has_humidity r =
     (let humidity = (if has_humidity then relative_humidity_2m r else None);
          (risk_text, risk_numeric, det) =
             calculate_advanced_frost_risk (temperature_2m r) (wind_speed_10m r) (cloud_cover r)
               humidity (hour_of_day_of df r)
      in r\<lparr>frost_risk_level := Some risk_text,
            frost_risk_numeric := Some risk_numeric,
            frost_warning := Some (risk_numeric > 0),
            frost_details := Some det\<rparr>)"

definition analyze_dataframe_advanced :: "dataframe \<Rightarrow> dataframe \<times> log_record list" where
  "analyze_dataframe_advanced df =
     (if is_empty df then (df, [(WARNING, Tom_DataFrame)])
      else
        let missing_cols = filter (\<lambda>c. c \<notin> set (columns df)) [''temperature_2m'', ''wind_speed_10m'']
        in
          if missing_cols \<noteq> [] then (df, [(ERROR, Saknar_kolumner missing_cols)])
          else
            let result_df =
                  (if ''cloud_cover'' \<notin> set (columns df)
                   then \<lparr>columns = columns df @ [''cloud_cover''],
                         rows = map (\<lambda>r. r\<lparr>cloud_cover := Some 50.0\<rparr>) (rows df)\<rparr>
                   else df);
                has_humidity =
                  (''relative_humidity_2m'' \<in> set (columns result_df)
                   \<and> \<not> (\<forall>r \<in> set (rows result_df). relative_humidity_2m r = None));
                analysed = map (analyze_row result_df has_humidity) (rows result_df);
                warning_count = length (filter (\<lambda>r. frost_warning r = Some True) analysed)
            in
              (\<lparr>columns = add_column ''frost_details'' (add_column ''frost_warning''
                           (add_column ''frost_risk_numeric''
                             (add_column ''frost_risk_level'' (columns result_df)))),
                rows = analysed\<rparr>,
               if warning_count > 0 then [(INFO, Frostanalys warning_count (length analysed))]
               else []))"


section \<open>Text and exceptions\<close>

text \<open>
  A Python string is the list of its code points. An exception is represented by the
  text that \<^verbatim>\<open>str(e)\<close> gives, which is all the program reads of it.
\<close>

type_synonym pystr = "nat list"

definition asc :: "string \<Rightarrow> pystr" where
  "asc s = map of_char s"

fun decimal :: "nat \<Rightarrow> pystr" where
  "decimal n = (if n < 10 then [48 + n] else decimal (n div 10) @ [48 + n mod 10])"

declare decimal.simps [simp del]

datatype py_exception = PyException (str_of: pystr)

definition length_mismatch :: "nat \<Rightarrow> nat \<Rightarrow> py_exception" where
  \<comment> \<open>the \<^verbatim>\<open>ValueError\<close> of pandas when a column of another length is assigned\<close>
  "length_mismatch n_values n_index =
     PyException (asc ''Length of values ('' @ decimal n_values
        @ asc '') does not match length of index ('' @ decimal n_index @ asc '')'')"

definition attribute_error :: "string \<Rightarrow> py_exception" where
  \<comment> \<open>the \<^verbatim>\<open>AttributeError\<close> of \<^verbatim>\<open>.get\<close> on a value of the named type, which is not a \<^verbatim>\<open>dict\<close>\<close>
  "attribute_error type_name =
     PyException ([39] @ asc type_name @ [39] @ asc '' object has no attribute '' @ [39]
        @ asc ''get'' @ [39])"

definition key_error :: "string \<Rightarrow> py_exception" where
  \<comment> \<open>the \<^verbatim>\<open>KeyError\<close> of a missing column label\<close>
  "key_error c = PyException ([39] @ asc c @ [39])"


section \<open>Forecast transformation (main.py)\<close>

text \<open>
  A provider payload, as far as the transformation reads it. The payload and its member
  \<^verbatim>\<open>hourly\<close> are read with \<^verbatim>\<open>.get\<close>, which only a JSON object (a \<^verbatim>\<open>dict\<close>) has: of any other
  value (null, an array, a number, a text) the payload keeps the name of its Python type.

  The member \<^verbatim>\<open>time\<close> of the \<^verbatim>\<open>hourly\<close> object is absent; or a value that Python takes as
  false other than the empty array (null, \<^verbatim>\<open>false\<close>, 0, the empty text, the empty object); or
  an array that pandas reads as timestamps (an entry is the timestamp that its text
  denotes, \<open>None\<close> for a null entry); or a value on which the construction of the table
  or \<^verbatim>\<open>to_datetime\<close> raises (a number, an array with a text that is no time), given by the
  exception raised.

  A variable of the \<^verbatim>\<open>hourly\<close> object is absent, or one number or null, or an array of
  numbers and nulls. A variable that holds texts, truth values or nested values, and a
  non-empty object in the place of the time array, are outside this model.
\<close>

datatype time_value =
    Time_absent
  | Time_falsy
  | Time_array "int option list"
  | Time_refused py_exception

datatype series_value =
    Series_absent
  | Series_scalar "real option"
  | Series_array "real option list"

record hourly =
  time :: time_value
  series :: "string \<Rightarrow> series_value"

datatype payload =
    Not_an_object string
  | Hourly_absent
  | Hourly_not_object string
  | Hourly hourly

definition rint :: "real \<Rightarrow> int" where
  \<comment> \<open>rounding to the nearest integer, a tie to the even one\<close>
  "rint x =
     (let f = \<lfloor>x\<rfloor>; d = x - of_int f
      in if d < 1 / 2 then f else if d > 1 / 2 then f + 1 else if even f then f else f + 1)"

definition round1 :: "real \<Rightarrow> real" where
  \<comment> \<open>\<^verbatim>\<open>Series.round(1)\<close>\<close>
  "round1 x = of_int (rint (x * 10)) / 10"

definition column_values :: "hourly \<Rightarrow> nat \<Rightarrow> string \<Rightarrow> py_exception + real option list" where
  \<comment> \<open>\<^verbatim>\<open>df[col] = hourly.get(col, [None] * len(df))\<close>: one value is assigned to every row, an
      array must have the length of the table\<close>
  "column_values h n col =
     (case series h col of
        Series_absent \<Rightarrow> Inr (replicate n None)
      | Series_scalar v \<Rightarrow> Inr (replicate n v)
      | Series_array values \<Rightarrow>
          if length values = n then Inr values else Inl (length_mismatch (length values) n))"

definition transform_hourly_json ::
  "payload \<Rightarrow> string \<Rightarrow> int option \<Rightarrow> string \<Rightarrow> string \<Rightarrow> py_exception + dataframe" where
  "transform_hourly_json json_data dataset_tag issue_time run tz =
     (case json_data of
        Not_an_object type_name \<Rightarrow>
          \<comment> \<open>\<^verbatim>\<open>json_data.get\<close> raises\<close>
          Inl (attribute_error type_name)
      | Hourly_not_object type_name \<Rightarrow>
          \<comment> \<open>\<^verbatim>\<open>hourly.get\<close> raises\<close>
          Inl (attribute_error type_name)
      | Hourly_absent \<Rightarrow>
          \<comment> \<open>\<^verbatim>\<open>hourly\<close> is \<^verbatim>\<open>{}\<close> and \<^verbatim>\<open>times\<close> is \<^verbatim>\<open>[]\<close>\<close>
          Inr empty_frame
      | Hourly h \<Rightarrow>
          (case time h of
             Time_absent \<Rightarrow> Inr empty_frame
           | Time_falsy \<Rightarrow> Inr empty_frame
           | Time_refused e \<Rightarrow> Inl e
           | Time_array entries \<Rightarrow>
        let times = entries in
        if times = [] then Inr empty_frame
        else
          let n = length times in
          (case column_values h n ''temperature_2m'' of Inl e \<Rightarrow> Inl e | Inr temperature \<Rightarrow>
          (case column_values h n ''relative_humidity_2m'' of Inl e \<Rightarrow> Inl e | Inr humidity \<Rightarrow>
          (case column_values h n ''precipitation'' of Inl e \<Rightarrow> Inl e | Inr precip \<Rightarrow>
          (case column_values h n ''wind_speed_10m'' of Inl e \<Rightarrow> Inl e | Inr wind \<Rightarrow>
          (case column_values h n ''precipitation_probability'' of Inl e \<Rightarrow> Inl e | Inr prob \<Rightarrow>
          (case column_values h n ''cloud_cover'' of Inl e \<Rightarrow> Inl e | Inr cloud \<Rightarrow>
            Inr \<lparr>columns =
                   [''valid_time'', ''temperature_2m'', ''relative_humidity_2m'', ''precipitation'',
                    ''wind_speed_10m'', ''precipitation_probability'', ''cloud_cover'', ''dataset'',
                    ''forecast_issue_time'', ''horizon_hours'', ''run_id''],
                 rows = map (\<lambda>i.
                   \<lparr>valid_time = times ! i,
                    temperature_2m = temperature ! i,
                    relative_humidity_2m = humidity ! i,
                    precipitation = precip ! i,
                    wind_speed_10m = map_option (\<lambda>w. w / 3.6) (wind ! i),
                    precipitation_probability = prob ! i,
                    cloud_cover = cloud ! i,
                    dataset = Some dataset_tag,
                    forecast_issue_time = issue_time,
                    horizon_hours =
                      (case (issue_time, times ! i) of
                         (Some fit, Some vt) \<Rightarrow>
                           Some (round1 (real_of_int (vt - fit) / 1000000000 / 3600))
                       | _ \<Rightarrow> None),
                    run_id = Some run,
                    frost_risk_level = None, frost_risk_numeric = None, frost_warning = None,
                    frost_details = None, created_at = None\<rparr>) [0..<n]\<rparr>))))))))"

text \<open>A table without the wind column, used to instantiate statements.\<close>

definition frame1 :: dataframe where
  "frame1 = \<lparr>columns = [''valid_time'', ''temperature_2m''],
     rows = [\<lparr>valid_time = Some 0, temperature_2m = Some 1, relative_humidity_2m = None,
       precipitation = None, wind_speed_10m = None, precipitation_probability = None,
       cloud_cover = None, dataset = None, forecast_issue_time = None, horizon_hours = None,
       run_id = None, frost_risk_level = None, frost_risk_numeric = None, frost_warning = None,
       frost_details = None, created_at = None\<rparr>]\<rparr>"








section \<open>Persistence (main.py)\<close>

text \<open>
  The text \<^verbatim>\<open>%Y-%m-%d %H:%M:%S\<close> of a timestamp is represented by the timestamp cut to
  whole seconds: the text determines exactly that, and texts are ordered as these
  timestamps are.
\<close>

definition strftime :: "int \<Rightarrow> int" where
  "strftime t = (t div 1000000000) * 1000000000"

definition format_times :: "dataframe \<Rightarrow> dataframe" where
  \<comment> \<open>the loop over \<^verbatim>\<open>["valid_time", "forecast_issue_time"]\<close>\<close>
  "format_times df =
     df\<lparr>rows := map (\<lambda>r.
          r\<lparr>valid_time :=
               (if ''valid_time'' \<in> set (columns df) then map_option strftime (valid_time r)
                else valid_time r),
            forecast_issue_time :=
               (if ''forecast_issue_time'' \<in> set (columns df)
                then map_option strftime (forecast_issue_time r)
                else forecast_issue_time r)\<rparr>) (rows df)\<rparr>"

definition sort_nulls_last :: "('r \<Rightarrow> int option) \<Rightarrow> (int \<Rightarrow> int) \<Rightarrow> 'r list \<Rightarrow> 'r list" where
  \<comment> \<open>a stable sort on one key, in the direction \<open>dir\<close>, the missing keys last\<close>
  "sort_nulls_last key dir xs =
     sort_key (\<lambda>r. dir (the (key r))) (filter (\<lambda>r. key r \<noteq> None) xs)
       @ filter (\<lambda>r. key r = None) xs"

definition sort_values :: "row list \<Rightarrow> row list" where
  \<comment> \<open>\<^verbatim>\<open>sort_values(['valid_time', 'forecast_issue_datetime'], ascending=[True, False])\<close>\<close>
  "sort_values rs =
     sort_nulls_last valid_time (\<lambda>t. t) (sort_nulls_last forecast_issue_time (\<lambda>t. - t) rs)"

fun first_valid :: "('r \<Rightarrow> 'a option) \<Rightarrow> 'r list \<Rightarrow> 'a option" where
  "first_valid f [] = None"
| "first_valid f (r # rs) = (case f r of None \<Rightarrow> first_valid f rs | Some v \<Rightarrow> Some v)"

definition group_keys :: "row list \<Rightarrow> int list" where
  "group_keys rs = sort (remdups (List.map_filter valid_time rs))"

definition group_first :: "int \<Rightarrow> row list \<Rightarrow> row" where
  \<comment> \<open>\<^verbatim>\<open>first()\<close> of one group: for each column the first value that is not missing\<close>
  "group_first k g =
     \<lparr>valid_time = Some k,
      temperature_2m = first_valid temperature_2m g,
      relative_humidity_2m = first_valid relative_humidity_2m g,
      precipitation = first_valid precipitation g,
      wind_speed_10m = first_valid wind_speed_10m g,
      precipitation_probability = first_valid precipitation_probability g,
      cloud_cover = first_valid cloud_cover g,
      dataset = first_valid dataset g,
      forecast_issue_time = first_valid forecast_issue_time g,
      horizon_hours = first_valid horizon_hours g,
      run_id = first_valid run_id g,
      frost_risk_level = first_valid frost_risk_level g,
      frost_risk_numeric = first_valid frost_risk_numeric g,
      frost_warning = first_valid frost_warning g,
      frost_details = first_valid frost_details g,
      created_at = first_valid created_at g\<rparr>"

definition groupby_first :: "row list \<Rightarrow> row list" where
  \<comment> \<open>\<^verbatim>\<open>groupby('valid_time').first().reset_index()\<close>: groups in key order, no group for a
      missing key\<close>
  "groupby_first rs =
     map (\<lambda>k. group_first k (filter (\<lambda>r. valid_time r = Some k) rs)) (group_keys rs)"

definition latest_per_valid_time :: "dataframe \<Rightarrow> dataframe" where
  \<comment> \<open>the deduplication that both load functions apply\<close>
  "latest_per_valid_time df =
     \<lparr>columns = ''valid_time'' # removeAll ''valid_time'' (columns df),
      rows = groupby_first (sort_values (rows df))\<rparr>"

text \<open>
  A table of the store has the columns that its \<^verbatim>\<open>CREATE TABLE\<close> lists, and holds at most
  one record for each pair of \<^verbatim>\<open>valid_time\<close> and \<^verbatim>\<open>dataset\<close>; a table that has not been created
  is \<open>None\<close>. An \<^verbatim>\<open>INSERT OR REPLACE\<close> is refused when the table does not exist or lacks a
  column that the statement names; otherwise it removes the record with the same pair
  and adds the new one. What the engine does beyond that (another constraint of the
  schema, a locked file) is the argument \<open>fault\<close>: the exception, if any, that
  \<^verbatim>\<open>conn.execute\<close> raises for a record. The text of an exception of the engine is given
  without the statement and the parameters that SQLAlchemy appends to it.
\<close>

record db_table =
  table_columns :: "string list"
  stored :: "row list"

definition weather_hourly_columns :: "string list" where
  \<comment> \<open>\<^verbatim>\<open>CREATE TABLE IF NOT EXISTS weather_hourly\<close>\<close>
  "weather_hourly_columns =
     [''id'', ''valid_time'', ''temperature_2m'', ''relative_humidity_2m'', ''precipitation'',
      ''wind_speed_10m'', ''precipitation_probability'', ''cloud_cover'', ''dataset'',
      ''forecast_issue_time'', ''horizon_hours'', ''run_id'', ''created_at'']"

definition frost_warnings_columns :: "string list" where
  \<comment> \<open>\<^verbatim>\<open>CREATE TABLE IF NOT EXISTS frost_warnings\<close>\<close>
  "frost_warnings_columns =
     [''id'', ''valid_time'', ''temperature_2m'', ''wind_speed_10m'', ''frost_risk_level'',
      ''frost_risk_numeric'', ''dataset'', ''forecast_issue_time'', ''horizon_hours'',
      ''run_id'', ''created_at'']"

definition create_table :: "string list \<Rightarrow> db_table option \<Rightarrow> db_table option" where
  \<comment> \<open>\<^verbatim>\<open>CREATE TABLE IF NOT EXISTS\<close>: an existing table is left as it is\<close>
  "create_table cols tbl =
     (case tbl of None \<Rightarrow> Some \<lparr>table_columns = cols, stored = []\<rparr> | Some t \<Rightarrow> Some t)"

definition INSERT_WEATHER_SQL :: "string list" where
  \<comment> \<open>the columns that the statement names\<close>
  "INSERT_WEATHER_SQL =
     [''valid_time'', ''temperature_2m'', ''relative_humidity_2m'', ''precipitation'',
      ''wind_speed_10m'', ''precipitation_probability'', ''cloud_cover'', ''dataset'',
      ''forecast_issue_time'', ''horizon_hours'', ''run_id'']"

definition INSERT_FROST_WARNING_SQL :: "string list" where
  \<comment> \<open>the columns that the statement names\<close>
  "INSERT_FROST_WARNING_SQL =
     [''valid_time'', ''temperature_2m'', ''wind_speed_10m'', ''cloud_cover'', ''frost_risk_level'',
      ''frost_risk_numeric'', ''dataset'', ''forecast_issue_time'', ''horizon_hours'',
      ''run_id'', ''created_at'']"

definition no_such_table :: "string \<Rightarrow> py_exception" where
  "no_such_table name = PyException (asc ''(sqlite3.OperationalError) no such table: '' @ asc name)"

definition no_such_column :: "string \<Rightarrow> string \<Rightarrow> py_exception" where
  "no_such_column name c =
     PyException (asc ''(sqlite3.OperationalError) table '' @ asc name
        @ asc '' has no column named '' @ asc c)"

fun contains :: "'a list \<Rightarrow> 'a list \<Rightarrow> bool" where
  "contains sub [] = (sub = [])"
| "contains sub (c # cs) = (take (length sub) (c # cs) = sub \<or> contains sub cs)"

definition row_key :: "row \<Rightarrow> int option \<times> string option" where
  \<comment> \<open>\<^verbatim>\<open>UNIQUE(valid_time, dataset)\<close>\<close>
  "row_key r = (valid_time r, dataset r)"

definition insert_or_replace :: "row \<Rightarrow> row list \<Rightarrow> row list" where
  "insert_or_replace record tbl = filter (\<lambda>r. row_key r \<noteq> row_key record) tbl @ [record]"

definition execute ::
  "string \<Rightarrow> string list \<Rightarrow> (row \<Rightarrow> py_exception option) \<Rightarrow> row \<Rightarrow> db_table option
     \<Rightarrow> py_exception + db_table option" where
  \<comment> \<open>\<^verbatim>\<open>conn.execute\<close> of an \<^verbatim>\<open>INSERT OR REPLACE\<close> into the named table, for one record\<close>
  "execute name insert_columns fault record tbl =
     (case tbl of
        None \<Rightarrow> Inl (no_such_table name)
      | Some t \<Rightarrow>
          (case filter (\<lambda>c. c \<notin> set (table_columns t)) insert_columns of
             c # cs \<Rightarrow> Inl (no_such_column name c)
           | [] \<Rightarrow>
               (case fault record of
                  Some e \<Rightarrow> Inl e
                | None \<Rightarrow> Inr (Some (t\<lparr>stored := insert_or_replace record (stored t)\<rparr>)))))"

fun execute_all ::
  "string \<Rightarrow> string list \<Rightarrow> (row \<Rightarrow> py_exception option) \<Rightarrow> row list \<Rightarrow> db_table option
     \<Rightarrow> py_exception + db_table option" where
  "execute_all name insert_columns fault [] tbl = Inr tbl"
| "execute_all name insert_columns fault (record # records) tbl =
     (case execute name insert_columns fault record tbl of
        Inr tbl' \<Rightarrow> execute_all name insert_columns fault records tbl'
      | Inl e \<Rightarrow>
          if contains (asc ''UNIQUE constraint failed'') (str_of e)
          then execute_all name insert_columns fault records tbl
          else Inl e)"

definition weather_columns :: "row \<Rightarrow> row" where
  \<comment> \<open>the parameters that \<^verbatim>\<open>INSERT_WEATHER_SQL\<close> binds\<close>
  "weather_columns r =
     r\<lparr>frost_risk_level := None, frost_risk_numeric := None, frost_warning := None,
       frost_details := None, created_at := None\<rparr>"

definition weather_records :: "dataframe \<Rightarrow> py_exception + row list" where
  \<comment> \<open>\<^verbatim>\<open>load_weather_data\<close> from the copy to \<^verbatim>\<open>to_dict(orient="records")\<close>\<close>
  "weather_records df =
     (let df1 = format_times df in
        if ''forecast_issue_time'' \<in> set (columns df1)
           \<and> \<not> (\<forall>r \<in> set (rows df1). forecast_issue_time r = None)
        then
          (if ''valid_time'' \<in> set (columns df1)
           then Inr (rows (latest_per_valid_time df1))
           else Inl (key_error ''valid_time''))
        else Inr (rows df1))"

definition load_weather_data :: "dataframe \<Rightarrow> (row \<Rightarrow> py_exception option) \<Rightarrow> db_table option
    \<Rightarrow> py_exception + nat \<times> db_table option" where
  "load_weather_data df fault tbl =
     (if is_empty df then Inr (0, tbl)
      else
        case weather_records df of
          Inl e \<Rightarrow> Inl e
        | Inr records \<Rightarrow>
            (case execute_all ''weather_hourly'' INSERT_WEATHER_SQL fault
                    (map weather_columns records) tbl of
               Inl e \<Rightarrow> Inl e
             | Inr tbl' \<Rightarrow> Inr (length records, tbl')))"

definition warning_cols :: "string list" where
  "warning_cols =
     [''valid_time'', ''temperature_2m'', ''wind_speed_10m'', ''cloud_cover'',
      ''frost_risk_level'', ''frost_risk_numeric'', ''dataset'',
      ''forecast_issue_time'', ''horizon_hours'', ''run_id'', ''created_at'']"

definition select_warning_cols :: "row \<Rightarrow> row" where
  \<comment> \<open>\<^verbatim>\<open>warnings_df[warning_cols]\<close> on one row\<close>
  "select_warning_cols r =
     r\<lparr>relative_humidity_2m := None, precipitation := None,
       precipitation_probability := None, frost_warning := None, frost_details := None\<rparr>"

fun repr_items :: "string list \<Rightarrow> pystr" where
  "repr_items [] = []"
| "repr_items [c] = [39] @ asc c @ [39]"
| "repr_items (c # cs) = [39] @ asc c @ [39] @ asc '', '' @ repr_items cs"

definition key_error_index :: "string list \<Rightarrow> py_exception" where
  \<comment> \<open>the \<^verbatim>\<open>KeyError\<close> of a selection with missing labels\<close>
  "key_error_index cs =
     PyException ([34] @ asc ''['' @ repr_items cs @ asc ''] not in index'' @ [34])"

definition warning_records :: "dataframe \<Rightarrow> int \<Rightarrow> py_exception + row list" where
  \<comment> \<open>\<^verbatim>\<open>load_frost_warnings\<close> from the stamp \<^verbatim>\<open>created_at\<close> to \<^verbatim>\<open>to_dict(orient="records")\<close>,
      on the table of the warning rows\<close>
  "warning_records warnings_df now =
     (let w1 = \<lparr>columns = add_column ''created_at'' (columns warnings_df),
                 rows = map (\<lambda>r. r\<lparr>created_at := Some (strftime now)\<rparr>) (rows warnings_df)\<rparr>;
          w2 = format_times w1
      in
        case (if ''forecast_issue_time'' \<in> set (columns w2)
              then (if ''valid_time'' \<in> set (columns w2)
                    then Inr (latest_per_valid_time w2)
                    else Inl (key_error ''valid_time''))
              else Inr w2) of
          Inl e \<Rightarrow> Inl e
        | Inr w3 \<Rightarrow>
            let w4 = (if ''cloud_cover'' \<notin> set (columns w3)
                      then \<lparr>columns = columns w3 @ [''cloud_cover''],
                            rows = map (\<lambda>r. r\<lparr>cloud_cover := None\<rparr>) (rows w3)\<rparr>
                      else w3);
                missing = filter (\<lambda>c. c \<notin> set (columns w4)) warning_cols
            in if missing \<noteq> [] then Inl (key_error_index missing)
               else Inr (map select_warning_cols (rows w4)))"

definition has_risk :: "row \<Rightarrow> bool" where
  \<comment> \<open>a row with \<^verbatim>\<open>frost_risk_numeric > 0\<close>\<close>
  "has_risk r = (case frost_risk_numeric r of None \<Rightarrow> False | Some m \<Rightarrow> m > 0)"

definition load_frost_warnings :: "dataframe \<Rightarrow> int \<Rightarrow> (row \<Rightarrow> py_exception option)
    \<Rightarrow> db_table option \<Rightarrow> py_exception + nat \<times> db_table option" where
  "load_frost_warnings df now fault tbl =
     (if is_empty df then Inr (0, tbl)
      else if ''frost_warning'' \<notin> set (columns df) then Inl (key_error ''frost_warning'')
      else
        let warnings_df = df\<lparr>rows := filter (\<lambda>r. frost_warning r = Some True) (rows df)\<rparr>
        in
          if is_empty warnings_df then Inr (0, tbl)
          else
            case warning_records warnings_df now of
              Inl e \<Rightarrow> Inl e
            | Inr records \<Rightarrow>
                (case execute_all ''frost_warnings'' INSERT_FROST_WARNING_SQL fault records tbl of
                   Inl e \<Rightarrow> Inl e
                 | Inr tbl' \<Rightarrow> Inr (length records, tbl')))"


text \<open>Tables used to instantiate statements about the persistence functions.\<close>

definition blank :: row where
  "blank = \<lparr>valid_time = None, temperature_2m = None, relative_humidity_2m = None,
       precipitation = None, wind_speed_10m = None, precipitation_probability = None,
       cloud_cover = None, dataset = None, forecast_issue_time = None, horizon_hours = None,
       run_id = None, frost_risk_level = None, frost_risk_numeric = None, frost_warning = None,
       frost_details = None, created_at = None\<rparr>"

definition forecast_columns :: "string list" where
  "forecast_columns = [''valid_time'', ''temperature_2m'', ''relative_humidity_2m'', ''precipitation'',
                    ''wind_speed_10m'', ''precipitation_probability'', ''cloud_cover'', ''dataset'',
                    ''forecast_issue_time'', ''horizon_hours'', ''run_id'']"

definition two_issues :: dataframe where
  "two_issues = \<lparr>columns = forecast_columns,
     rows = [blank\<lparr>valid_time := Some 86400000000000, temperature_2m := None, wind_speed_10m := Some 1,
                   dataset := Some ''forecast'', forecast_issue_time := Some 36000000000000,
                   run_id := Some ''run_b''\<rparr>,
             blank\<lparr>valid_time := Some 86400000000000, temperature_2m := Some 1.5, wind_speed_10m := Some 2,
                   dataset := Some ''forecast'', forecast_issue_time := Some 32400000000000,
                   run_id := Some ''run_a''\<rparr>]\<rparr>"


section \<open>SMS message (sms\_notifier.py)\<close>

text \<open>
  The columns that the message reads: the largest risk number, the lowest temperature
  and the mean wind speed, each over the values that are not missing (\<open>None\<close> when all
  are, as pandas gives \<^verbatim>\<open>NaN\<close>).
\<close>

definition present :: "'a option list \<Rightarrow> 'a list" where
  "present vs = List.map_filter (\<lambda>v. v) vs"

definition column_max :: "int option list \<Rightarrow> int option" where
  "column_max vs = (case present vs of [] \<Rightarrow> None | x # xs \<Rightarrow> Some (fold max xs x))"

definition column_min :: "real option list \<Rightarrow> real option" where
  "column_min vs = (case present vs of [] \<Rightarrow> None | x # xs \<Rightarrow> Some (fold min xs x))"

definition column_mean :: "real option list \<Rightarrow> real option" where
  "column_mean vs =
     (case present vs of [] \<Rightarrow> None | x # xs \<Rightarrow> Some (sum_list (x # xs) / real (length (x # xs))))"

definition format_0f :: "real option \<Rightarrow> pystr" where
  \<comment> \<open>the format \<^verbatim>\<open>:.0f\<close>: the nearest integer (a tie to the even one) with the sign of the
      number\<close>
  "format_0f v =
     (case v of
        None \<Rightarrow> asc ''nan''
      | Some x \<Rightarrow> (if x < 0 then asc ''-'' else []) @ decimal (nat \<bar>rint x\<bar>))"

definition date_of :: "int \<Rightarrow> int" where
  \<comment> \<open>the day number of a timestamp\<close>
  "date_of t = t div 86400000000000"

definition month_day :: "int \<Rightarrow> int \<times> int" where
  \<comment> \<open>month and day of the month of a day number, in the Gregorian calendar\<close>
  "month_day days =
     (let z = days + 719468;
          doe = z mod 146097;
          yoe = (doe - doe div 1460 + doe div 36524 - doe div 146096) div 365;
          doy = doe - (365 * yoe + yoe div 4 - yoe div 100);
          mp = (5 * doy + 2) div 153
      in (if mp < 10 then mp + 3 else mp - 9, doy - (153 * mp + 2) div 5 + 1))"

definition two_digits :: "int \<Rightarrow> pystr" where
  "two_digits n = [48 + nat (n div 10), 48 + nat (n mod 10)]"

definition strftime_day_month :: "int \<Rightarrow> pystr" where
  \<comment> \<open>\<^verbatim>\<open>strftime("%d/%m")\<close>\<close>
  "strftime_day_month t =
     (let (m, d) = month_day (date_of t) in two_digits d @ asc ''/'' @ two_digits m)"

definition assembled_message ::
  "pystr \<Rightarrow> pystr \<Rightarrow> pystr \<Rightarrow> pystr \<Rightarrow> pystr \<Rightarrow> pystr \<Rightarrow> pystr \<Rightarrow> pystr" where
  \<comment> \<open>the first template, with the time text or the duration text in third place\<close>
  "assembled_message emoji risk_text time_or_duration temp wind_text action location =
     emoji @ asc '' FROST '' @ risk_text @ asc '' '' @ time_or_duration @ asc ''. Temp '' @ temp
       @ [176] @ asc ''C, '' @ wind_text @ asc ''. '' @ action @ asc '' MVH '' @ location"

definition fallback_message :: "pystr \<Rightarrow> pystr \<Rightarrow> pystr \<Rightarrow> pystr \<Rightarrow> pystr \<Rightarrow> pystr" where
  "fallback_message emoji risk_text temp action location =
     emoji @ asc '' FROST '' @ risk_text @ asc ''. Temp '' @ temp @ [176] @ asc ''C. '' @ action
       @ asc '' MVH '' @ location"

definition at_least :: "int option \<Rightarrow> int \<Rightarrow> bool" where
  \<comment> \<open>\<^verbatim>\<open>>=\<close> on a number that may be \<^verbatim>\<open>NaN\<close>\<close>
  "at_least v n = (case v of None \<Rightarrow> False | Some x \<Rightarrow> x \<ge> n)"

definition below :: "real option \<Rightarrow> real \<Rightarrow> bool" where
  \<comment> \<open>\<^verbatim>\<open><\<close> on a number that may be \<^verbatim>\<open>NaN\<close>\<close>
  "below v n = (case v of None \<Rightarrow> False | Some x \<Rightarrow> x < n)"

text \<open>
  The six texts that \<^verbatim>\<open>create_frost_sms_message\<close> chooses, each the \<^verbatim>\<open>if\<close> chain of the
  variable it is named after.
\<close>

definition time_text :: "int \<Rightarrow> int \<Rightarrow> pystr" where
  "time_text first_warning_time now =
     (if date_of first_warning_time = date_of now then asc ''idag''
      else if date_of first_warning_time = date_of now + 1 then asc ''imorgon''
      else strftime_day_month first_warning_time)"

definition risk_text :: "int option \<Rightarrow> pystr" where
  "risk_text max_risk =
     (if at_least max_risk 3 then asc ''H'' @ [214] @ asc ''G RISK''
      else if at_least max_risk 2 then asc ''MEDEL RISK''
      else asc ''L'' @ [197] @ asc ''G RISK'')"

definition emoji :: "int option \<Rightarrow> pystr" where
  "emoji max_risk =
     (if at_least max_risk 3 then [128680]
      else if at_least max_risk 2 then [9888, 65039]
      else [10052, 65039])"

definition duration_text :: "nat \<Rightarrow> pystr" where
  "duration_text warning_count =
     (if warning_count = 1 then asc ''1 timme''
      else if warning_count \<le> 6 then decimal warning_count @ asc '' timmar''
      else asc ''flera timmar'')"

definition wind_text :: "real option \<Rightarrow> pystr" where
  "wind_text avg_wind =
     (if below avg_wind 2 then asc ''svag vind''
      else if below avg_wind 4 then asc ''m'' @ [229] @ asc ''ttlig vind''
      else asc ''kraftig vind'')"

definition action :: "int option \<Rightarrow> pystr" where
  "action max_risk =
     (if at_least max_risk 3 then asc ''T'' @ [228] @ asc ''ck v'' @ [228] @ asc ''xter NU!''
      else if at_least max_risk 2 then asc ''F'' @ [246] @ asc ''rbered skydd!''
      else asc ''H'' @ [229] @ asc ''ll koll!'')"

definition first_message :: "dataframe \<Rightarrow> pystr \<Rightarrow> int \<Rightarrow> int \<Rightarrow> pystr" where
  \<comment> \<open>the message assembled first, for a table whose first valid time is present\<close>
  "first_message warnings_df location now first_warning_time =
     (let max_risk = column_max (map frost_risk_numeric (rows warnings_df));
          warning_count = length (rows warnings_df);
          temp = format_0f (column_min (map temperature_2m (rows warnings_df)));
          avg_wind = column_mean (map wind_speed_10m (rows warnings_df))
      in
        if warning_count = 1
        then assembled_message (emoji max_risk) (risk_text max_risk)
               (time_text first_warning_time now) temp (wind_text avg_wind) (action max_risk)
               location
        else assembled_message (emoji max_risk) (risk_text max_risk)
               (duration_text warning_count) temp (wind_text avg_wind) (action max_risk)
               location)"

definition short_message :: "dataframe \<Rightarrow> pystr \<Rightarrow> pystr" where
  \<comment> \<open>the message of the shorter template\<close>
  "short_message warnings_df location =
     (let max_risk = column_max (map frost_risk_numeric (rows warnings_df));
          temp = format_0f (column_min (map temperature_2m (rows warnings_df)))
      in fallback_message (emoji max_risk) (risk_text max_risk) temp (action max_risk) location)"

definition create_frost_sms_message :: "dataframe \<Rightarrow> pystr \<Rightarrow> int \<Rightarrow> py_exception + pystr" where
  "create_frost_sms_message warnings_df location now =
     (if is_empty warnings_df then Inr []
      else if ''frost_risk_numeric'' \<notin> set (columns warnings_df)
        then Inl (key_error ''frost_risk_numeric'')
      else if ''valid_time'' \<notin> set (columns warnings_df) then Inl (key_error ''valid_time'')
      else
        case valid_time (hd (rows warnings_df)) of
          None \<Rightarrow> Inl (PyException (asc ''NaTType does not support date''))
        | Some first_warning_time \<Rightarrow>
            if ''temperature_2m'' \<notin> set (columns warnings_df)
              then Inl (key_error ''temperature_2m'')
            else if ''wind_speed_10m'' \<notin> set (columns warnings_df)
              then Inl (key_error ''wind_speed_10m'')
            else if length (first_message warnings_df location now first_warning_time) > 160
              then Inr (short_message warnings_df location)
            else Inr (first_message warnings_df location now first_warning_time))"

text \<open>One analysed warning row and a signature of 200 characters, to instantiate statements.\<close>

definition one_warning :: dataframe where
  "one_warning = \<lparr>columns = forecast_columns @ [''frost_risk_level'', ''frost_risk_numeric'',
                                ''frost_warning'', ''frost_details''],
     rows = [blank\<lparr>valid_time := Some 86400000000000, temperature_2m := Some (-1),
                   wind_speed_10m := Some 1, dataset := Some ''forecast'',
                   forecast_issue_time := Some 36000000000000, run_id := Some ''run'',
                   frost_risk_level := Some Hog, frost_risk_numeric := Some 3,
                   frost_warning := Some True, frost_details := Some Temperatur_under_noll\<rparr>]\<rparr>"


section \<open>The run (main.py)\<close>

text \<open>
  Everything outside the program is an argument of the run: whether the configuration
  loads, what the smoke tests do, whether the database can be prepared, what the
  provider returns after the retries, what the notification manager does with the
  warning rows, which records the engine refuses for another reason than the columns
  of the table, whether the heartbeat can be written, the clock, and the lower-case
  mapping of the characters outside ASCII (which Python takes from the Unicode tables).
  The store that the run starts from holds the tables that exist already; the run
  creates the others. The configuration is taken to have the sections that the run
  reads. The run is one thread; its stages are recorded in the order in which they are
  called.
\<close>

datatype smoke_outcome =
    Smoke_not_importable
  | Smoke_passed
  | Smoke_failed
  | Smoke_raised py_exception

record environment =
  config_error :: "py_exception option"
  run_name :: string
  timezone :: string
  smoke :: smoke_outcome
  database_error :: "py_exception option"
  forecast :: "py_exception + payload"
  issue_time_local :: int
  notify :: "dataframe \<Rightarrow> py_exception + bool"
  weather_fault :: "row \<Rightarrow> py_exception option"
  warning_fault :: "row \<Rightarrow> py_exception option"
  save_time :: int
  heartbeat_error :: "py_exception option"
  unicode_lower :: "nat \<Rightarrow> nat list"

record store =
  weather_hourly :: "db_table option"
  frost_warnings :: "db_table option"
  heartbeat :: "(string \<times> string) list"

datatype stage =
    Load_config
  | Smoke_check
  | Prepare_database
  | Fetch_forecast
  | Transform
  | Frost_analysis
  | Notification
  | Save_weather
  | Save_warnings
  | Write_heartbeat

record run =
  exit_status :: int
  stages :: "stage list"
  errors :: "pystr list"
  final_store :: store

definition py_lower :: "(nat \<Rightarrow> nat list) \<Rightarrow> pystr \<Rightarrow> pystr" where
  \<comment> \<open>\<^verbatim>\<open>str.lower\<close>\<close>
  "py_lower ul s =
     concat (map (\<lambda>c. if 65 \<le> c \<and> c \<le> 90 then [c + 32] else if c < 128 then [c] else ul c) s)"

definition mentions_keyword :: "(nat \<Rightarrow> nat list) \<Rightarrow> pystr \<Rightarrow> bool" where
  "mentions_keyword ul error \<longleftrightarrow>
     contains (asc ''kritiskt'') (py_lower ul error) \<or> contains (asc ''databas'') (py_lower ul error)"

definition perform_frost_analysis :: "dataframe \<Rightarrow> dataframe" where
  "perform_frost_analysis df = (if is_empty df then df else fst (analyze_dataframe_advanced df))"

definition forecast_stage :: "environment \<Rightarrow> dataframe \<times> pystr list \<times> stage list" where
  \<comment> \<open>the first \<^verbatim>\<open>try\<close> of \<^verbatim>\<open>main\<close>: the forecast table, the errors recorded, the stages called\<close>
  "forecast_stage env =
     (case forecast env of
        Inl e \<Rightarrow> (empty_frame, [asc ''Prognos misslyckades: '' @ str_of e], [Fetch_forecast])
      | Inr fc_json \<Rightarrow>
          (case transform_hourly_json fc_json ''forecast'' (Some (issue_time_local env)) (run_name env)
                  (timezone env) of
             Inl e \<Rightarrow>
               (empty_frame, [asc ''Prognos misslyckades: '' @ str_of e], [Fetch_forecast, Transform])
           | Inr df \<Rightarrow>
               let df_fc = perform_frost_analysis df;
                   called = [Fetch_forecast, Transform, Frost_analysis]
               in
                 if is_empty df_fc then (df_fc, [], called)
                 else if ''frost_warning'' \<notin> set (columns df_fc)
                   then (empty_frame, [asc ''Prognos misslyckades: False''], called)
                 else
                   let warnings_only =
                         df_fc\<lparr>rows := filter (\<lambda>r. frost_warning r = Some True) (rows df_fc)\<rparr>
                   in
                     if is_empty warnings_only then (df_fc, [], called)
                     else
                       (case notify env warnings_only of
                          Inl e \<Rightarrow>
                            (df_fc, [asc ''Notifikationsfel: '' @ str_of e], called @ [Notification])
                        | Inr any_sent \<Rightarrow> (df_fc, [], called @ [Notification]))))"

definition create_database_tables :: "store \<Rightarrow> store" where
  \<comment> \<open>the two tables of forecast data; the table \<^verbatim>\<open>heartbeat\<close> is the list of its records,
      and its insert names the columns it is created with\<close>
  "create_database_tables st =
     st\<lparr>weather_hourly := create_table weather_hourly_columns (weather_hourly st),
        frost_warnings := create_table frost_warnings_columns (frost_warnings st)\<rparr>"

definition persistence_stage ::
  "environment \<Rightarrow> dataframe \<Rightarrow> store \<Rightarrow> store \<times> pystr list \<times> stage list" where
  \<comment> \<open>the second \<^verbatim>\<open>try\<close> of \<^verbatim>\<open>main\<close>\<close>
  "persistence_stage env df_fc st =
     (if is_empty df_fc then (st, [], [])
      else
        case load_weather_data df_fc (weather_fault env) (weather_hourly st) of
          Inl e \<Rightarrow> (st, [asc ''Databas-sparning misslyckades: '' @ str_of e], [Save_weather])
        | Inr (n, tbl) \<Rightarrow>
            (case load_frost_warnings df_fc (save_time env) (warning_fault env) (frost_warnings st) of
               Inl e \<Rightarrow>
                 (st\<lparr>weather_hourly := tbl\<rparr>,
                  [asc ''Databas-sparning misslyckades: '' @ str_of e],
                  [Save_weather, Save_warnings])
             | Inr (k, tbl') \<Rightarrow>
                 (st\<lparr>weather_hourly := tbl, frost_warnings := tbl'\<rparr>, [],
                  [Save_weather, Save_warnings])))"

definition write_heartbeat :: "environment \<Rightarrow> pystr list \<Rightarrow> store \<Rightarrow> store" where
  "write_heartbeat env errs st =
     (case heartbeat_error env of
        Some e \<Rightarrow> st
      | None \<Rightarrow> st\<lparr>heartbeat := heartbeat st @ [(run_name env, if errs = [] then ''ok'' else ''fail'')]\<rparr>)"

definition final_status :: "environment \<Rightarrow> pystr list \<Rightarrow> int" where
  \<comment> \<open>the end of \<^verbatim>\<open>main\<close>: \<^verbatim>\<open>sys.exit(1)\<close> under the keyword test, a plain return otherwise\<close>
  "final_status env errs =
     (if errs \<noteq> [] \<and> (\<exists>error \<in> set errs. mentions_keyword (unicode_lower env) error) then 1 else 0)"

definition main :: "environment \<Rightarrow> store \<Rightarrow> run" where
  "main env st =
     (case config_error env of
        Some e \<Rightarrow> \<lparr>exit_status = 1, stages = [Load_config], errors = [], final_store = st\<rparr>
      | None \<Rightarrow>
          if smoke env = Smoke_failed
          then \<lparr>exit_status = 1, stages = [Load_config, Smoke_check], errors = [], final_store = st\<rparr>
          else
            (case database_error env of
               Some e \<Rightarrow>
                 \<lparr>exit_status = 1, stages = [Load_config, Smoke_check, Prepare_database],
                  errors = [], final_store = st\<rparr>
             | None \<Rightarrow>
                 let st0 = create_database_tables st;
                     (df_fc, errs1, called1) = forecast_stage env;
                     (st1, errs2, called2) = persistence_stage env df_fc st0;
                     errs = errs1 @ errs2
                 in \<lparr>exit_status = final_status env errs,
                     stages = [Load_config, Smoke_check, Prepare_database] @ called1 @ called2
                                @ [Write_heartbeat],
                     errors = errs,
                     final_store = write_heartbeat env errs st1\<rparr>))"

definition stage_order :: "stage list" where
  \<comment> \<open>the order in which \<^verbatim>\<open>main\<close> calls its stages\<close>
  "stage_order =
     [Load_config, Smoke_check, Prepare_database, Fetch_forecast, Transform, Frost_analysis,
      Notification, Save_weather, Save_warnings, Write_heartbeat]"

text \<open>Environments and a store used to instantiate statements about the run.\<close>

definition no_store :: store where
  "no_store = \<lparr>weather_hourly = None, frost_warnings = None, heartbeat = []\<rparr>"

definition frost_night :: hourly where
  "frost_night = \<lparr>time = Time_array [Some 86400000000000, Some 90000000000000],
          series = (\<lambda>c. if c = ''temperature_2m'' then Series_array [Some (-1), Some 4]
                      else if c = ''wind_speed_10m'' then Series_array [Some 3.6, Some 7.2]
                      else Series_absent)\<rparr>"

definition quiet :: environment where
  "quiet = \<lparr>config_error = None, run_name = ''etl_run_19700101T100000Z'',
            timezone = ''Europe/Stockholm'', smoke = Smoke_not_importable,
            database_error = None, forecast = Inr (Hourly frost_night),
            issue_time_local = 36000000000000, notify = (\<lambda>_. Inr True),
            weather_fault = (\<lambda>_. None), warning_fault = (\<lambda>_. None),
            save_time = 36000000000000, heartbeat_error = None,
            unicode_lower = (\<lambda>c. [c])\<rparr>"

definition provider_down :: environment where
  "provider_down = quiet\<lparr>forecast := Inl (PyException (asc ''timeout''))\<rparr>"

definition engine_down :: environment where
  "engine_down = quiet\<lparr>weather_fault := (\<lambda>_. Some (PyException (asc ''disk I/O error'')))\<rparr>"


section \<open>Verified properties\<close>

subsection \<open>Frost analysis\<close>

lemma analyze_empty:
  "is_empty df \<Longrightarrow> analyze_dataframe_advanced df = (df, [(WARNING, Tom_DataFrame)])"
  unfolding analyze_dataframe_advanced_def by (simp only: if_True)

lemma analyze_missing:
  assumes "\<not> is_empty df"
      and "''temperature_2m'' \<notin> set (columns df) \<or> ''wind_speed_10m'' \<notin> set (columns df)"
  shows "analyze_dataframe_advanced df =
     (df, [(ERROR, Saknar_kolumner
        (filter (\<lambda>c. c \<notin> set (columns df)) [''temperature_2m'', ''wind_speed_10m'']))])"
proof -
  have a: "is_empty df = False" using assms(1) by simp
  have b: "(filter (\<lambda>c. c \<notin> set (columns df)) [''temperature_2m'', ''wind_speed_10m''] \<noteq> []) = True"
    using assms(2) by auto
  show ?thesis
    unfolding analyze_dataframe_advanced_def Let_def by (simp only: a b if_False if_True)
qed

lemma risk_missing_temperature:
  "calculate_advanced_frost_risk None wind_speed cloud humidity hour_of_day = (Okand, 0, Saknade_data)"
  by (simp add: calculate_advanced_frost_risk_def)

lemma risk_missing_wind:
  "calculate_advanced_frost_risk temperature None cloud humidity hour_of_day = (Okand, 0, Saknade_data)"
  by (cases temperature) (simp_all add: calculate_advanced_frost_risk_def)

lemma threshold_cases:
  "dynamic_threshold f = (temp_limit, lvl, num) \<Longrightarrow>
     (temp_limit, lvl, num) = (3, Lag, 1) \<and> f \<ge> 1.4
   \<or> (temp_limit, lvl, num) = (2, Medel, 2) \<and> f < 1.4 \<and> f \<ge> 1.1
   \<or> (temp_limit, lvl, num) = (1, Medel, 2) \<and> f < 1.1"
  unfolding dynamic_threshold_def
  by (cases "f \<ge> 1.4"; cases "f \<ge> 1.1") simp_all

lemma risk_above_zero:
  assumes "t > 0"
      and "\<forall>h. hour_of_day = Some h \<longrightarrow> \<not> (8 \<le> h \<and> h \<le> 17)"
      and "dynamic_threshold (calculate_cloud_impact_factor cloud) = (temp_limit, lvl, num)"
  shows "calculate_advanced_frost_risk (Some t) (Some w) cloud humidity hour_of_day =
      (if t \<le> temp_limit \<and> w < 4 then (lvl, num, Vindstilla (calculate_cloud_impact_factor cloud))
       else if (\<exists>hm. humidity = Some hm \<and> t \<le> 2 \<and> w < 3 \<and> hm > 85)
       then (Medel, 2, Hog_fuktighet) else (Ingen, 0, Ingen_risk))"
proof -
  have day: "(case hour_of_day of None \<Rightarrow> False | Some h \<Rightarrow> 8 \<le> h \<and> h \<le> 17) = False"
    using assms(2) by (cases hour_of_day) simp_all
  have hum: "(case humidity of None \<Rightarrow> False | Some h \<Rightarrow> t \<le> 2 \<and> w < 3 \<and> h > 85)
      = (\<exists>hm. humidity = Some hm \<and> t \<le> 2 \<and> w < 3 \<and> hm > 85)"
    by (cases humidity) simp_all
  have pos: "(t \<le> 0) = False" using assms(1) by simp
  show ?thesis
    unfolding calculate_advanced_frost_risk_def Let_def
    by (simp only: day hum pos assms(3) prod.case option.case simp_thms if_False if_True)
qed

text \<open>
  Claim C2. With temperature and wind speed present: between 08 and 17 o'clock
  (inclusive) a temperature above zero gives \<open>(Ingen, 0)\<close> whatever cloud cover and
  humidity are, and a temperature at or below zero gives \<open>(Hog, 3)\<close> for every hour,
  cloud cover and humidity.
\<close>

theorem daytime_and_freezing_rules:
  "(hour_of_day = Some h \<and> 8 \<le> h \<and> h \<le> 17 \<and> t > 0 \<longrightarrow>
      (\<exists>d. calculate_advanced_frost_risk (Some t) (Some w) cloud humidity hour_of_day = (Ingen, 0, d)))
   \<and> (t \<le> 0 \<longrightarrow>
      (\<exists>d. calculate_advanced_frost_risk (Some t) (Some w) cloud humidity hour_of_day = (Hog, 3, d)))"
  by (auto simp: calculate_advanced_frost_risk_def split: option.splits)

theorem daytime_and_freezing_rules_witness:
  "(Some 14 = Some (14::int) \<and> (8::int) \<le> 14 \<and> (14::int) \<le> 17 \<and> (2::real) > 0)
   \<and> (\<exists>d. calculate_advanced_frost_risk (Some 2) (Some 1.5) (Some 20) None (Some 14) = (Ingen, 0, d))
   \<and> ((-1::real) \<le> 0)
   \<and> (\<exists>d. calculate_advanced_frost_risk (Some (-1)) (Some 1.5) (Some 20) None (Some 14) = (Hog, 3, d))"
  using daytime_and_freezing_rules [of "Some 14" 14 2 "1.5" "Some 20" None]
        daytime_and_freezing_rules [of "Some 14" 14 "-1" "1.5" "Some 20" None]
  by simp

text \<open>
  Claim C3, as the code has it. For a call with temperature above zero that the
  daytime filter does not take: the cloud factor is 1.0 for an absent cloud cover, 1.5
  up to 20, 1.2 up to 50, 1.0 up to 80 and 0.7 above; the factor selects limit 3.0 with
  low (1) from 1.4 on, limit 2.0 with medium (2) from 1.1 on and limit 1.0 with medium
  (2) below; temperature within the limit and wind below 4 returns that level and
  number; and that level and number are returned exactly when either this holds or
  the factor is below 1.4 and the humidity rule fires (humidity present and above 85,
  temperature at most 2, wind below 3).
\<close>

theorem cloud_threshold_rule:
  assumes "t > 0"
      and "\<forall>h. hour_of_day = Some h \<longrightarrow> \<not> (8 \<le> h \<and> h \<le> 17)"
      and "dynamic_threshold (calculate_cloud_impact_factor cloud) = (temp_limit, lvl, num)"
  shows "calculate_cloud_impact_factor cloud =
           (case cloud of None \<Rightarrow> 1.0
            | Some c \<Rightarrow> if c \<le> 20 then 1.5 else if c \<le> 50 then 1.2
                        else if c \<le> 80 then 1.0 else 0.7)
         \<and> (temp_limit, lvl, num) =
             (if calculate_cloud_impact_factor cloud \<ge> 1.4 then (3.0, Lag, 1)
              else if calculate_cloud_impact_factor cloud \<ge> 1.1 then (2.0, Medel, 2)
              else (1.0, Medel, 2))
         \<and> (t \<le> temp_limit \<and> w < 4 \<longrightarrow>
              (\<exists>d. calculate_advanced_frost_risk (Some t) (Some w) cloud humidity hour_of_day
                     = (lvl, num, d)))
         \<and> ((\<exists>d. calculate_advanced_frost_risk (Some t) (Some w) cloud humidity hour_of_day
                     = (lvl, num, d))
              \<longleftrightarrow> (t \<le> temp_limit \<and> w < 4)
                  \<or> (calculate_cloud_impact_factor cloud < 1.4
                      \<and> (\<exists>hm. humidity = Some hm \<and> t \<le> 2 \<and> w < 3 \<and> hm > 85)))"
proof -
  define H where "H \<longleftrightarrow> (\<exists>hm. humidity = Some hm \<and> t \<le> 2 \<and> w < 3 \<and> hm > 85)"
  define f where "f = calculate_cloud_impact_factor cloud"
  define A where "A \<longleftrightarrow> t \<le> temp_limit \<and> w < 4"
  define r where "r = calculate_advanced_frost_risk (Some t) (Some w) cloud humidity hour_of_day"
  have res: "r = (if A then (lvl, num, Vindstilla f)
       else if H then (Medel, 2, Hog_fuktighet) else (Ingen, 0, Ingen_risk))"
    unfolding r_def A_def H_def f_def by (rule risk_above_zero [OF assms])
  have lvl: "(lvl, num) = (Lag, 1) \<and> f \<ge> 1.4 \<or> (lvl, num) = (Medel, 2) \<and> f < 1.4"
    using threshold_cases [OF assms(3)] unfolding f_def by auto
  have c1: "calculate_cloud_impact_factor cloud =
           (case cloud of None \<Rightarrow> 1.0
            | Some c \<Rightarrow> if c \<le> 20 then 1.5 else if c \<le> 50 then 1.2
                        else if c \<le> 80 then 1.0 else 0.7)"
    by (simp add: calculate_cloud_impact_factor_def)
  have c2: "(temp_limit, lvl, num) =
             (if calculate_cloud_impact_factor cloud \<ge> 1.4 then (3.0, Lag, 1)
              else if calculate_cloud_impact_factor cloud \<ge> 1.1 then (2.0, Medel, 2)
              else (1.0, Medel, 2))"
    unfolding assms(3) [symmetric] dynamic_threshold_def by (rule refl)
  have c3: "A \<longrightarrow> (\<exists>d. r = (lvl, num, d))"
    by (simp add: res)
  have c4: "(\<exists>d. r = (lvl, num, d)) \<longleftrightarrow> A \<or> (f < 1.4 \<and> H)"
  proof (cases A)
    case True
    then show ?thesis by (simp add: res)
  next
    case nA: False
    show ?thesis
    proof (cases H)
      case True
      have "r = (Medel, 2, Hog_fuktighet)" using nA True by (simp add: res)
      then show ?thesis using lvl nA True by auto
    next
      case False
      have "r = (Ingen, 0, Ingen_risk)" using nA False by (simp add: res)
      then show ?thesis using lvl nA False by auto
    qed
  qed
  from c1 c2 c3 c4 show ?thesis unfolding H_def f_def A_def r_def by blast
qed

theorem cloud_threshold_rule_witness:
  "(1::real) > 0 \<and> \<not> (8 \<le> (23::int) \<and> (23::int) \<le> 17)
   \<and> dynamic_threshold (calculate_cloud_impact_factor (Some 10)) = (3.0, Lag, 1)
   \<and> (1::real) \<le> 3.0 \<and> (1::real) < 4
   \<and> (\<exists>d. calculate_advanced_frost_risk (Some 1) (Some 1) (Some 10) None (Some 23) = (Lag, 1, d))"
proof -
  have a: "(1::real) > 0" by simp
  have b: "\<forall>h. Some (23::int) = Some h \<longrightarrow> \<not> (8 \<le> h \<and> h \<le> 17)" by simp
  have c: "dynamic_threshold (calculate_cloud_impact_factor (Some 10)) = (3.0, Lag, 1)"
    by (simp add: dynamic_threshold_def calculate_cloud_impact_factor_def)
  have d: "(1::real) \<le> 3.0 \<and> (1::real) < 4" by simp
  have "\<exists>d. calculate_advanced_frost_risk (Some 1) (Some 1) (Some 10) None (Some 23) = (Lag, 1, d)"
    using cloud_threshold_rule [OF a b c, of 1 None] d by blast
  with a c d show ?thesis by simp
qed

text \<open>
  Claim C3 as stated fails: under an overcast sky (cloud cover 90, limit 1.0, medium)
  a temperature of 1.5 with wind 1 and humidity 90 is above the limit, yet the result
  is medium (2) through the humidity rule.
\<close>

theorem cloud_threshold_iff_counterexample:
  "(1.5::real) > 0
   \<and> dynamic_threshold (calculate_cloud_impact_factor (Some 90)) = (1.0, Medel, 2)
   \<and> calculate_advanced_frost_risk (Some 1.5) (Some 1) (Some 90) (Some 90) None
       = (Medel, 2, Hog_fuktighet)
   \<and> \<not> ((1.5::real) \<le> 1.0 \<and> (1::real) < 4)"
  by (simp add: calculate_advanced_frost_risk_def calculate_cloud_impact_factor_def
      dynamic_threshold_def)

text \<open>
  Claim C9, as the code has it. A classification with temperature or wind speed
  absent is \<open>(Okand, 0)\<close>; a non-empty table that lacks a required column is returned
  unchanged with one error record; an empty table is returned unchanged with a warning
  record.
\<close>

theorem missing_data_handling:
  "(\<exists>d. calculate_advanced_frost_risk None wind_speed cloud humidity hour_of_day = (Okand, 0, d))
   \<and> (\<exists>d. calculate_advanced_frost_risk temperature None cloud humidity hour_of_day = (Okand, 0, d))
   \<and> (\<not> is_empty df
        \<and> (''temperature_2m'' \<notin> set (columns df) \<or> ''wind_speed_10m'' \<notin> set (columns df))
        \<longrightarrow> (\<exists>missing. analyze_dataframe_advanced df = (df, [(ERROR, Saknar_kolumner missing)])))
   \<and> (is_empty df \<longrightarrow> analyze_dataframe_advanced df = (df, [(WARNING, Tom_DataFrame)]))"
  using risk_missing_temperature risk_missing_wind analyze_missing [of df] analyze_empty [of df]
  by blast

theorem missing_data_handling_witness:
  "\<not> is_empty frame1 \<and> ''wind_speed_10m'' \<notin> set (columns frame1)
   \<and> (\<exists>missing. analyze_dataframe_advanced frame1 = (frame1, [(ERROR, Saknar_kolumner missing)]))
   \<and> is_empty empty_frame
   \<and> analyze_dataframe_advanced empty_frame = (empty_frame, [(WARNING, Tom_DataFrame)])"
proof -
  have a: "\<not> is_empty frame1" by (simp add: is_empty_def frame1_def)
  have b: "''wind_speed_10m'' \<notin> set (columns frame1)" by (simp add: frame1_def)
  have c: "is_empty empty_frame" by (simp add: is_empty_def empty_frame_def)
  from missing_data_handling [of "None" None None None None frame1]
       missing_data_handling [of "None" None None None None empty_frame] a b c
  show ?thesis by blast
qed

text \<open>
  Claim C9 as stated fails for the empty table: it lacks both required columns, and the
  only record logged is a warning.
\<close>

theorem missing_column_logs_error_counterexample:
  "''temperature_2m'' \<notin> set (columns empty_frame)
   \<and> analyze_dataframe_advanced empty_frame = (empty_frame, [(WARNING, Tom_DataFrame)])
   \<and> ERROR \<notin> fst ` set (snd (analyze_dataframe_advanced empty_frame))"
proof -
  have c: "is_empty empty_frame" by (simp add: is_empty_def empty_frame_def)
  have d: "analyze_dataframe_advanced empty_frame = (empty_frame, [(WARNING, Tom_DataFrame)])"
    by (rule analyze_empty [OF c])
  show ?thesis unfolding d by (simp add: empty_frame_def)
qed

text \<open>
  Claim C10. The cloud impact factor does not increase with cloud cover, takes one of
  the values 0.7, 1.0, 1.2, 1.5, and is 1.0 for an absent cloud cover.
\<close>

theorem cloud_factor_monotone_range:
  "(c1 \<le> c2 \<longrightarrow> calculate_cloud_impact_factor (Some c2) \<le> calculate_cloud_impact_factor (Some c1))
   \<and> calculate_cloud_impact_factor cloud \<in> {0.7, 1.0, 1.2, 1.5}
   \<and> calculate_cloud_impact_factor None = 1.0"
  by (auto simp: calculate_cloud_impact_factor_def split: option.splits)

theorem cloud_factor_monotone_range_witness:
  "(10::real) \<le> 90 \<and> calculate_cloud_impact_factor (Some 90) \<le> calculate_cloud_impact_factor (Some 10)
   \<and> calculate_cloud_impact_factor (Some 90) = 0.7 \<and> calculate_cloud_impact_factor (Some 10) = 1.5"
  using cloud_factor_monotone_range [of 10 90 None]
  by (simp add: calculate_cloud_impact_factor_def)

subsection \<open>Forecast transformation\<close>











subsection \<open>Persistence\<close>

lemma set_sort_nulls_last: "set (sort_nulls_last key dir xs) = set xs"
  unfolding sort_nulls_last_def by auto

lemma set_sort_values: "set (sort_values rs) = set rs"
  unfolding sort_values_def by (simp add: set_sort_nulls_last)

lemma set_map_filter_valid_time:
  "set (List.map_filter valid_time rs) = {k. Some k \<in> valid_time ` set rs}"
proof (induction rs)
  case Nil
  show ?case by (simp add: List.map_filter_simps)
next
  case (Cons r rs)
  show ?case
  proof (cases "valid_time r")
    case None
    with Cons show ?thesis by (auto simp: List.map_filter_simps)
  next
    case (Some k)
    with Cons show ?thesis by (auto simp: List.map_filter_simps)
  qed
qed

lemma set_group_keys: "set (group_keys rs) = {k. Some k \<in> valid_time ` set rs}"
  unfolding group_keys_def by (simp add: set_map_filter_valid_time)

lemma distinct_group_keys: "distinct (group_keys rs)"
  unfolding group_keys_def by simp

lemma sorted_group_keys: "sorted (group_keys rs)"
  unfolding group_keys_def by simp

lemma group_keys_cong: "set rs = set rs' \<Longrightarrow> group_keys rs = group_keys rs'"
  by (intro sorted_distinct_set_unique sorted_group_keys distinct_group_keys)
     (simp add: set_group_keys)

lemma valid_time_group_first: "valid_time (group_first k g) = Some k"
  by (simp add: group_first_def)

lemma dataset_group_first: "dataset (group_first k g) = first_valid dataset g"
  by (simp add: group_first_def)

lemma map_valid_time_groupby_first:
  "map valid_time (groupby_first rs) = map Some (group_keys rs)"
  unfolding groupby_first_def by (simp add: valid_time_group_first comp_def)

lemma length_groupby_first: "length (groupby_first rs) = card {k. Some k \<in> valid_time ` set rs}"
proof -
  have "length (groupby_first rs) = length (group_keys rs)"
    unfolding groupby_first_def by simp
  also have "\<dots> = card (set (group_keys rs))"
    by (simp add: distinct_card distinct_group_keys)
  finally show ?thesis by (simp add: set_group_keys)
qed

lemma first_valid_const:
  "g \<noteq> [] \<Longrightarrow> \<forall>r \<in> set g. f r = Some d \<Longrightarrow> first_valid f g = Some d"
  by (cases g) auto

lemma rows_latest:
  "rows (latest_per_valid_time df) = groupby_first (sort_values (rows df))"
  by (simp add: latest_per_valid_time_def)

lemma valid_times_latest:
  "valid_time ` set (rows (latest_per_valid_time df))
     = {Some k | k. Some k \<in> valid_time ` set (rows df)}"
proof -
  have "valid_time ` set (rows (latest_per_valid_time df))
      = set (map valid_time (groupby_first (sort_values (rows df))))"
    by (simp add: rows_latest)
  also have "\<dots> = Some ` set (group_keys (sort_values (rows df)))"
    by (simp add: map_valid_time_groupby_first)
  also have "\<dots> = Some ` {k. Some k \<in> valid_time ` set (rows df)}"
    by (simp add: set_group_keys set_sort_values)
  finally show ?thesis by auto
qed

lemma length_latest:
  "length (rows (latest_per_valid_time df)) = card {k. Some k \<in> valid_time ` set (rows df)}"
  by (simp add: rows_latest length_groupby_first set_sort_values)

lemma keys_latest:
  assumes "\<forall>r \<in> set (rows df). dataset r = Some d"
  shows "row_key ` set (rows (latest_per_valid_time df))
     = {(Some k, Some d) | k. Some k \<in> valid_time ` set (rows df)}"
proof -
  let ?rs = "sort_values (rows df)"
  have ds: "dataset (group_first k (filter (\<lambda>r. valid_time r = Some k) ?rs)) = Some d"
    if "k \<in> set (group_keys ?rs)" for k
  proof -
    from that obtain r where "r \<in> set ?rs" "valid_time r = Some k"
      by (auto simp: set_group_keys)
    then have "filter (\<lambda>r. valid_time r = Some k) ?rs \<noteq> []"
      by (auto simp: filter_empty_conv)
    moreover have "\<forall>r \<in> set (filter (\<lambda>r. valid_time r = Some k) ?rs). dataset r = Some d"
      using assms by (simp add: set_sort_values)
    ultimately show ?thesis
      by (simp add: dataset_group_first first_valid_const)
  qed
  have "row_key ` set (rows (latest_per_valid_time df))
      = (\<lambda>k. (Some k, Some d)) ` set (group_keys ?rs)"
    unfolding rows_latest groupby_first_def
    by (auto simp: row_key_def valid_time_group_first ds image_iff)
  also have "\<dots> = {(Some k, Some d) | k. Some k \<in> valid_time ` set (rows df)}"
    by (auto simp: set_group_keys set_sort_values)
  finally show ?thesis .
qed

lemmas eval_defs =
  load_weather_data_def load_frost_warnings_def warning_records_def is_empty_def forecast_columns_def
  weather_records_def format_times_def latest_per_valid_time_def groupby_first_def
  group_keys_def group_first_def sort_values_def sort_nulls_last_def blank_def strftime_def
  weather_columns_def insert_or_replace_def row_key_def
  execute_def create_table_def weather_hourly_columns_def frost_warnings_columns_def
  INSERT_WEATHER_SQL_def INSERT_FROST_WARNING_SQL_def
  analyze_dataframe_advanced_def analyze_row_def hour_of_day_of_def hour_def
  calculate_advanced_frost_risk_def calculate_cloud_impact_factor_def dynamic_threshold_def
  add_column_def select_warning_cols_def warning_cols_def has_risk_def Let_def

lemma no_such_column_not_unique:
  "\<not> contains (asc ''UNIQUE constraint failed'')
       (str_of (no_such_column ''frost_warnings'' ''cloud_cover''))"
  by (simp add: no_such_column_def asc_def)

lemma execute_cloud_cover:
  "execute ''frost_warnings'' INSERT_FROST_WARNING_SQL fault record
       (Some \<lparr>table_columns = frost_warnings_columns, stored = xs\<rparr>)
     = Inl (no_such_column ''frost_warnings'' ''cloud_cover'')"
  by (simp add: execute_def INSERT_FROST_WARNING_SQL_def frost_warnings_columns_def)

lemma execute_all_cloud_cover:
  "execute_all ''frost_warnings'' INSERT_FROST_WARNING_SQL fault (record # records)
       (Some \<lparr>table_columns = frost_warnings_columns, stored = xs\<rparr>)
     = Inl (no_such_column ''frost_warnings'' ''cloud_cover'')"
  using no_such_column_not_unique by (simp add: execute_cloud_cover)

lemma load_frost_warnings_created_table:
  assumes "\<not> is_empty df" and "''frost_warning'' \<in> set (columns df)"
      and "filter (\<lambda>r. frost_warning r = Some True) (rows df) \<noteq> []"
      and "warning_records (df\<lparr>rows := filter (\<lambda>r. frost_warning r = Some True) (rows df)\<rparr>) now
             = Inr (record # records)"
  shows "load_frost_warnings df now fault (create_table frost_warnings_columns None)
           = Inl (no_such_column ''frost_warnings'' ''cloud_cover'')"
  using assms unfolding load_frost_warnings_def Let_def create_table_def
  by (simp add: is_empty_def execute_all_cloud_cover del: execute_all.simps)

text \<open>
  Claim C5. On the table \<open>two_issues\<close> (two forecasts for the same valid time; the one
  issued later has no temperature, the one issued earlier has 1.5) the weather upsert
  writes one record that carries the later issue time and run, but the temperature of
  the earlier forecast: \<^verbatim>\<open>first()\<close> takes, column by column, the first value that is not
  missing, so the record written is not the row with the most recent issue time.
\<close>

theorem dedup_merges_stale_values:
  "load_weather_data two_issues (\<lambda>_. None) (create_table weather_hourly_columns None) =
   Inr (1, Some \<lparr>table_columns = weather_hourly_columns, stored =
           [blank\<lparr>valid_time := Some 86400000000000, temperature_2m := Some 1.5, wind_speed_10m := Some 1,
                   dataset := Some ''forecast'', forecast_issue_time := Some 36000000000000,
                   run_id := Some ''run_b''\<rparr>]\<rparr>)"
  by (simp add: eval_defs two_issues_def)

subsection \<open>SMS message\<close>

lemma rint_of_int: "rint (of_int n) = n"
  by (simp add: rint_def)

lemma rint_minus_one: "rint (- 1) = - 1"
  using rint_of_int [of "- 1"] by simp

lemma decimal_one: "decimal (Suc 0) = [49]"
  by (simp add: decimal.simps)

lemma length_asc: "length (asc s) = length s"
  by (simp add: asc_def)

lemma fixed_parts: "length (emoji r) + length (risk_text r) + length (action r) \<le> 27"
  by (simp add: emoji_def risk_text_def action_def length_asc)

lemma length_fallback_message:
  "length (fallback_message e r t a l) = length e + length r + length t + length a + length l + 23"
  by (simp add: fallback_message_def length_asc)

lemma length_short_message:
  "length (short_message df location)
     \<le> 50 + length (format_0f (column_min (map temperature_2m (rows df)))) + length location"
  using fixed_parts [of "column_max (map frost_risk_numeric (rows df))"]
  by (simp add: short_message_def Let_def length_fallback_message)

lemma create_frost_sms_message_cases:
  assumes "create_frost_sms_message df location now = Inr m"
  shows "m = [] \<or> (\<exists>t. valid_time (hd (rows df)) = Some t \<and>
           (if length (first_message df location now t) > 160
            then m = short_message df location
            else m = first_message df location now t))"
  using assms unfolding create_frost_sms_message_def
  by (cases "valid_time (hd (rows df))") (simp_all split: if_splits)

lemmas sms_defs = create_frost_sms_message_def first_message_def short_message_def
  one_warning_def forecast_columns_def blank_def
  is_empty_def column_max_def column_min_def column_mean_def present_def
  at_least_def below_def date_of_def assembled_message_def fallback_message_def format_0f_def
  emoji_def risk_text_def action_def wind_text_def time_text_def duration_text_def
  asc_def Let_def

lemma one_warning_message:
  "\<exists>m. create_frost_sms_message one_warning (asc ''Din trakt'') 0 = Inr m \<and> length m = 77"
  by (simp add: sms_defs rint_minus_one decimal_one)

lemma one_warning_temp:
  "length (format_0f (column_min (map temperature_2m (rows one_warning)))) = 2"
  by (simp add: sms_defs rint_minus_one decimal_one)

text \<open>
  Claim C6, as the code has it. A message that is returned has at most 160 characters
  or is the message of the shorter template, whose length is at most 50 plus the lengths
  of the rendered lowest temperature and of the location; so it has at most 160
  characters when these two lengths together are at most 110. When the message
  assembled first exceeds 160 characters, the message of the shorter template is
  returned.
\<close>

theorem sms_message_length:
  "create_frost_sms_message df location now = Inr m \<longrightarrow>
     length m \<le> max 160 (50 + length (format_0f (column_min (map temperature_2m (rows df))))
                           + length location)
     \<and> (length (format_0f (column_min (map temperature_2m (rows df)))) + length location \<le> 110
          \<longrightarrow> length m \<le> 160)
     \<and> (\<forall>t. \<not> is_empty df \<and> valid_time (hd (rows df)) = Some t
              \<and> length (first_message df location now t) > 160
          \<longrightarrow> m = short_message df location)"
proof
  assume res: "create_frost_sms_message df location now = Inr m"
  define bound where
    "bound = 50 + length (format_0f (column_min (map temperature_2m (rows df)))) + length location"
  have short: "length (short_message df location) \<le> bound"
    unfolding bound_def by (rule length_short_message)
  from create_frost_sms_message_cases [OF res]
  have len: "length m \<le> 160 \<or> length m \<le> bound"
  proof
    assume "m = []"
    then show ?thesis by simp
  next
    assume "\<exists>t. valid_time (hd (rows df)) = Some t \<and>
           (if length (first_message df location now t) > 160
            then m = short_message df location
            else m = first_message df location now t)"
    then obtain t where t: "if length (first_message df location now t) > 160
            then m = short_message df location
            else m = first_message df location now t"
      by blast
    show ?thesis
    proof (cases "length (first_message df location now t) > 160")
      case True
      with t short show ?thesis by simp
    next
      case False
      with t show ?thesis by simp
    qed
  qed
  have c1: "length m \<le> max 160 bound" using len by auto
  have c2: "length m \<le> 160"
    if "length (format_0f (column_min (map temperature_2m (rows df)))) + length location \<le> 110"
    using len that unfolding bound_def by auto
  have c3: "m = short_message df location"
    if "\<not> is_empty df" and "valid_time (hd (rows df)) = Some t"
      and "length (first_message df location now t) > 160" for t
    using res that unfolding create_frost_sms_message_def by (simp split: if_splits)
  from c1 c2 c3 show "length m \<le> max 160 (50 + length (format_0f (column_min (map temperature_2m (rows df))))
                           + length location)
     \<and> (length (format_0f (column_min (map temperature_2m (rows df)))) + length location \<le> 110
          \<longrightarrow> length m \<le> 160)
     \<and> (\<forall>t. \<not> is_empty df \<and> valid_time (hd (rows df)) = Some t
              \<and> length (first_message df location now t) > 160
          \<longrightarrow> m = short_message df location)"
    unfolding bound_def by blast
qed

theorem sms_message_length_witness:
  "\<exists>m. create_frost_sms_message one_warning (asc ''Din trakt'') 0 = Inr m
       \<and> length (format_0f (column_min (map temperature_2m (rows one_warning))))
           + length (asc ''Din trakt'') \<le> 110
       \<and> length m \<le> 160"
proof -
  from one_warning_message obtain m
    where m: "create_frost_sms_message one_warning (asc ''Din trakt'') 0 = Inr m" by blast
  have l: "length (format_0f (column_min (map temperature_2m (rows one_warning))))
           + length (asc ''Din trakt'') \<le> 110"
    by (simp add: one_warning_temp length_asc)
  from sms_message_length [of one_warning "asc ''Din trakt''" 0 m] m l
  have "length m \<le> 160" by blast
  with m l show ?thesis by blast
qed

text \<open>
  Claim C6 as stated fails for a long location: with one warning row and a location of
  200 characters the message returned is the shorter template, of 249 characters.
\<close>

theorem sms_long_location_counterexample:
  "map_sum id length (create_frost_sms_message one_warning (replicate 200 120) 0) = Inr 249"
  by (simp add: sms_defs rint_minus_one decimal_one)

subsection \<open>The run\<close>

lemma forecast_stage_called:
  "snd (snd (forecast_stage env)) \<in>
     {[Fetch_forecast], [Fetch_forecast, Transform], [Fetch_forecast, Transform, Frost_analysis],
      [Fetch_forecast, Transform, Frost_analysis, Notification]}"
  unfolding forecast_stage_def Let_def
  by (simp split: sum.splits)

lemma persistence_stage_called:
  "snd (snd (persistence_stage env df st)) \<in> {[], [Save_weather], [Save_weather, Save_warnings]}"
  unfolding persistence_stage_def
  by (simp split: sum.splits prod.splits)

lemma main_cases:
  "(errors (main env st) = [] \<and> exit_status (main env st) = 1
      \<and> stages (main env st) \<in> {[Load_config], [Load_config, Smoke_check],
                                 [Load_config, Smoke_check, Prepare_database]})
   \<or> (exit_status (main env st) = final_status env (errors (main env st))
      \<and> stages (main env st) =
           [Load_config, Smoke_check, Prepare_database] @ snd (snd (forecast_stage env))
             @ snd (snd (persistence_stage env (fst (forecast_stage env))
                           (create_database_tables st))) @ [Write_heartbeat])"
  unfolding main_def Let_def
  by (simp split: option.splits prod.splits)

lemma stages_of_main:
  "stages (main env st) \<in>
     {[Load_config], [Load_config, Smoke_check], [Load_config, Smoke_check, Prepare_database]}
   \<or> (\<exists>c1 c2. c1 \<in> {[Fetch_forecast], [Fetch_forecast, Transform],
                        [Fetch_forecast, Transform, Frost_analysis],
                        [Fetch_forecast, Transform, Frost_analysis, Notification]}
         \<and> c2 \<in> {[], [Save_weather], [Save_weather, Save_warnings]}
         \<and> stages (main env st) =
               [Load_config, Smoke_check, Prepare_database] @ c1 @ c2 @ [Write_heartbeat])"
  using main_cases [of env st] forecast_stage_called [of env]
        persistence_stage_called [of env "fst (forecast_stage env)" "create_database_tables st"]
  by blast

lemma in_order:
  assumes "c1 \<in> {[Fetch_forecast], [Fetch_forecast, Transform],
                        [Fetch_forecast, Transform, Frost_analysis],
                        [Fetch_forecast, Transform, Frost_analysis, Notification]}"
      and "c2 \<in> {[], [Save_weather], [Save_weather, Save_warnings]}"
      and "xs = [Load_config, Smoke_check, Prepare_database] @ c1 @ c2 @ [Write_heartbeat]"
  shows "xs = filter (\<lambda>s. s \<in> set xs) stage_order"
    and "Notification \<in> set xs \<longrightarrow>
           (\<exists>before after. xs = before @ Notification # after
              \<and> Save_weather \<notin> set before \<and> Save_warnings \<notin> set before
              \<and> Fetch_forecast \<in> set before \<and> Frost_analysis \<in> set before)"
proof -
  from assms(1) have a: "c1 = [Fetch_forecast] \<or> c1 = [Fetch_forecast, Transform]
       \<or> c1 = [Fetch_forecast, Transform, Frost_analysis]
       \<or> c1 = [Fetch_forecast, Transform, Frost_analysis, Notification]" by simp
  from assms(2) have b: "c2 = [] \<or> c2 = [Save_weather] \<or> c2 = [Save_weather, Save_warnings]"
    by simp
  show "xs = filter (\<lambda>s. s \<in> set xs) stage_order"
    using a b unfolding assms(3) stage_order_def by (elim disjE) simp_all
  show "Notification \<in> set xs \<longrightarrow>
           (\<exists>before after. xs = before @ Notification # after
              \<and> Save_weather \<notin> set before \<and> Save_warnings \<notin> set before
              \<and> Fetch_forecast \<in> set before \<and> Frost_analysis \<in> set before)"
  proof
    assume "Notification \<in> set xs"
    with a b have c1: "c1 = [Fetch_forecast, Transform, Frost_analysis, Notification]"
      unfolding assms(3) by (elim disjE) simp_all
    have "xs = [Load_config, Smoke_check, Prepare_database, Fetch_forecast, Transform,
                 Frost_analysis] @ Notification # (c2 @ [Write_heartbeat])"
      unfolding assms(3) c1 by simp
    moreover have "Save_weather \<notin> set [Load_config, Smoke_check, Prepare_database,
                 Fetch_forecast, Transform, Frost_analysis]" by simp
    moreover have "Save_warnings \<notin> set [Load_config, Smoke_check, Prepare_database,
                 Fetch_forecast, Transform, Frost_analysis]" by simp
    moreover have "Fetch_forecast \<in> set [Load_config, Smoke_check, Prepare_database,
                 Fetch_forecast, Transform, Frost_analysis]" by simp
    moreover have "Frost_analysis \<in> set [Load_config, Smoke_check, Prepare_database,
                 Fetch_forecast, Transform, Frost_analysis]" by simp
    ultimately show "\<exists>before after. xs = before @ Notification # after
              \<and> Save_weather \<notin> set before \<and> Save_warnings \<notin> set before
              \<and> Fetch_forecast \<in> set before \<and> Frost_analysis \<in> set before"
      by blast
  qed
qed

lemmas run_defs = main_def forecast_stage_def persistence_stage_def final_status_def
  write_heartbeat_def perform_frost_analysis_def quiet_def provider_down_def engine_down_def
  no_store_def frost_night_def transform_hourly_json_def column_values_def empty_frame_def
  mentions_keyword_def py_lower_def create_database_tables_def

lemma quiet_stages:
  "stages (main quiet no_store) =
     [Load_config, Smoke_check, Prepare_database, Fetch_forecast, Transform, Frost_analysis,
      Notification, Save_weather, Save_warnings, Write_heartbeat]"
  by (simp add: run_defs eval_defs rint_def round1_def)

lemma contains_take: "take (length sub) xs = sub \<Longrightarrow> contains sub xs"
  by (cases xs) auto

lemma contains_append_left: "contains sub (sub @ ys)"
  by (rule contains_take) simp

lemma py_lower_append: "py_lower ul (a @ b) = py_lower ul a @ py_lower ul b"
  by (simp add: py_lower_def)

lemma database_error_mentions_keyword:
  "mentions_keyword ul (asc ''Databas-sparning misslyckades: '' @ x)"
proof -
  have "py_lower ul (asc ''Databas-sparning misslyckades: '')
          = asc ''databas'' @ asc ''-sparning misslyckades: ''"
    by (simp add: py_lower_def asc_def)
  then have "py_lower ul (asc ''Databas-sparning misslyckades: '' @ x)
          = asc ''databas'' @ (asc ''-sparning misslyckades: '' @ py_lower ul x)"
    by (simp add: py_lower_append)
  then show ?thesis
    unfolding mentions_keyword_def by (simp only: contains_append_left simp_thms)
qed





text \<open>
  Claim C4, as the code has it. The stages that a run calls are called once each and in
  the order of \<open>stage_order\<close>: forecast fetch, transformation, frost analysis,
  notification, saving of the weather rows, saving of the warning rows, heartbeat. When
  a notification is attempted, the fetch and the analysis precede it and neither save
  does.
\<close>

theorem stages_in_order:
  "stages (main env st) = filter (\<lambda>s. s \<in> set (stages (main env st))) stage_order
   \<and> (Notification \<in> set (stages (main env st)) \<longrightarrow>
        (\<exists>before after. stages (main env st) = before @ Notification # after
           \<and> Save_weather \<notin> set before \<and> Save_warnings \<notin> set before
           \<and> Fetch_forecast \<in> set before \<and> Frost_analysis \<in> set before))"
  using stages_of_main [of env st]
proof
  assume e: "stages (main env st) \<in>
     {[Load_config], [Load_config, Smoke_check], [Load_config, Smoke_check, Prepare_database]}"
  then have "stages (main env st) = [Load_config] \<or> stages (main env st) = [Load_config, Smoke_check]
     \<or> stages (main env st) = [Load_config, Smoke_check, Prepare_database]" by simp
  then show ?thesis
    by (elim disjE) (simp_all add: stage_order_def)
next
  assume "\<exists>c1 c2. c1 \<in> {[Fetch_forecast], [Fetch_forecast, Transform],
                        [Fetch_forecast, Transform, Frost_analysis],
                        [Fetch_forecast, Transform, Frost_analysis, Notification]}
         \<and> c2 \<in> {[], [Save_weather], [Save_weather, Save_warnings]}
         \<and> stages (main env st) =
               [Load_config, Smoke_check, Prepare_database] @ c1 @ c2 @ [Write_heartbeat]"
  then obtain c1 c2 where c: "c1 \<in> {[Fetch_forecast], [Fetch_forecast, Transform],
                        [Fetch_forecast, Transform, Frost_analysis],
                        [Fetch_forecast, Transform, Frost_analysis, Notification]}"
      "c2 \<in> {[], [Save_weather], [Save_weather, Save_warnings]}"
      "stages (main env st) =
               [Load_config, Smoke_check, Prepare_database] @ c1 @ c2 @ [Write_heartbeat]"
    by blast
  from in_order(1) [OF c] in_order(2) [OF c] show ?thesis by blast
qed

theorem stages_in_order_witness:
  "Notification \<in> set (stages (main quiet no_store))
   \<and> (\<exists>before after. stages (main quiet no_store) = before @ Notification # after
           \<and> Save_weather \<notin> set before \<and> Save_warnings \<notin> set before
           \<and> Fetch_forecast \<in> set before \<and> Frost_analysis \<in> set before)"
proof -
  have n: "Notification \<in> set (stages (main quiet no_store))"
    unfolding quiet_stages by simp
  with stages_in_order [of quiet no_store] show ?thesis by blast
qed

text \<open>
  Claim C4 as stated fails on a run with a freezing hour in the forecast: the
  notification is attempted after the analysis and before the two saves.
\<close>

theorem notification_before_persistence_counterexample:
  "stages (main quiet no_store) =
     [Load_config, Smoke_check, Prepare_database, Fetch_forecast, Transform, Frost_analysis]
       @ [Notification] @ [Save_weather, Save_warnings] @ [Write_heartbeat]"
  using quiet_stages by simp

subsection \<open>The warnings of a run\<close>

text \<open>
  Claim C7. The table \<^verbatim>\<open>frost_warnings\<close> that the program creates lacks the column
  \<^verbatim>\<open>cloud_cover\<close> that \<^verbatim>\<open>INSERT_FROST_WARNING_SQL\<close> names, so on a database of the program's
  own making the insert of the first warning record is refused, with an error that is
  not the one the loop passes over. In the run \<open>quiet\<close> (a new database, a forecast of two
  hours of which the first is freezing) the analysed table has one row with
  \<^verbatim>\<open>frost_risk_numeric > 0\<close>; \<^verbatim>\<open>load_frost_warnings\<close> raises on it instead of writing one
  record and returning 1; the run records the error of the database save and ends with
  status 1, the two weather records written and the table \<^verbatim>\<open>frost_warnings\<close> empty.
\<close>

theorem frost_warnings_not_written:
  "map frost_risk_numeric (rows (fst (forecast_stage quiet))) = [Some 3, Some 0]
   \<and> length (filter has_risk (rows (fst (forecast_stage quiet)))) = 1
   \<and> frost_warnings (create_database_tables no_store)
        = Some \<lparr>table_columns = frost_warnings_columns, stored = []\<rparr>
   \<and> load_frost_warnings (fst (forecast_stage quiet)) (save_time quiet) (warning_fault quiet)
          (frost_warnings (create_database_tables no_store))
        = Inl (no_such_column ''frost_warnings'' ''cloud_cover'')
   \<and> errors (main quiet no_store)
        = [asc ''Databas-sparning misslyckades: ''
             @ str_of (no_such_column ''frost_warnings'' ''cloud_cover'')]
   \<and> exit_status (main quiet no_store) = 1
   \<and> map_option stored (frost_warnings (final_store (main quiet no_store))) = Some []
   \<and> map_option (map row_key \<circ> stored) (weather_hourly (final_store (main quiet no_store)))
        = Some [(Some 86400000000000, Some ''forecast''), (Some 90000000000000, Some ''forecast'')]"
proof -
  have a: "map frost_risk_numeric (rows (fst (forecast_stage quiet))) = [Some 3, Some 0]"
    by (simp add: run_defs eval_defs rint_def round1_def)
  have b: "length (filter has_risk (rows (fst (forecast_stage quiet)))) = 1"
    by (simp add: run_defs eval_defs rint_def round1_def)
  have c: "frost_warnings (create_database_tables no_store)
        = Some \<lparr>table_columns = frost_warnings_columns, stored = []\<rparr>"
    by (simp add: create_database_tables_def no_store_def create_table_def)
  have d: "load_frost_warnings (fst (forecast_stage quiet)) (save_time quiet) (warning_fault quiet)
          (frost_warnings (create_database_tables no_store))
        = Inl (no_such_column ''frost_warnings'' ''cloud_cover'')"
    unfolding c
    by (simp add: run_defs load_frost_warnings_def warning_records_def is_empty_def
          format_times_def latest_per_valid_time_def groupby_first_def
          group_keys_def group_first_def sort_values_def sort_nulls_last_def blank_def
          strftime_def analyze_dataframe_advanced_def analyze_row_def hour_of_day_of_def
          hour_def calculate_advanced_frost_risk_def calculate_cloud_impact_factor_def
          dynamic_threshold_def add_column_def select_warning_cols_def warning_cols_def Let_def
          rint_def round1_def execute_all_cloud_cover del: execute_all.simps)
  have e: "errors (main quiet no_store)
        = [asc ''Databas-sparning misslyckades: ''
             @ str_of (no_such_column ''frost_warnings'' ''cloud_cover'')]"
    using no_such_column_not_unique
    by (simp add: run_defs eval_defs rint_def round1_def)
  have "mentions_keyword (unicode_lower quiet)
          (asc ''Databas-sparning misslyckades: ''
             @ str_of (no_such_column ''frost_warnings'' ''cloud_cover''))"
    by (rule database_error_mentions_keyword)
  with main_cases [of quiet no_store] have f: "exit_status (main quiet no_store) = 1"
    by (simp add: e final_status_def)
  have g: "map_option stored (frost_warnings (final_store (main quiet no_store))) = Some []"
    using no_such_column_not_unique
    by (simp add: run_defs eval_defs rint_def round1_def)
  have h: "map_option (map row_key \<circ> stored) (weather_hourly (final_store (main quiet no_store)))
        = Some [(Some 86400000000000, Some ''forecast''), (Some 90000000000000, Some ''forecast'')]"
    using no_such_column_not_unique
    by (simp add: run_defs eval_defs rint_def round1_def)
  from a b c d e f g h show ?thesis by (intro conjI)
qed

end
